theory Spec2Isabelle
  imports Complex_Main "HOL-Library.Multiset"
begin

section \<open>Strings\<close>

text \<open>
  Python strings are modelled as HOL strings whose characters are the code points below
  256. The helpers below are the string operations that \<^verbatim>\<open>app.py\<close> calls:
  \<^verbatim>\<open>str.isspace\<close>, \<^verbatim>\<open>str.strip\<close>, \<^verbatim>\<open>str.lower\<close>,
  \<^verbatim>\<open>str.startswith\<close>, the substring test \<^verbatim>\<open>in\<close>, \<^verbatim>\<open>str(int)\<close>,
  \<^verbatim>\<open>int(str)\<close> on a run of digits, and the two regular expressions.
\<close>

definition isspace :: "char \<Rightarrow> bool" where
  "isspace c = (of_char c \<in> {9, 10, 11, 12, 13, 28, 29, 30, 31, 32, 133, 160 :: nat})"

definition isdigit :: "char \<Rightarrow> bool" where
  "isdigit c = (48 \<le> (of_char c :: nat) \<and> (of_char c :: nat) \<le> 57)"

definition strip :: "string \<Rightarrow> string" where
  "strip s = rev (dropWhile isspace (rev (dropWhile isspace s)))"

text \<open>
  \<^verbatim>\<open>str.lower\<close> on one character: the upper-case letters below 256 are the code points
  65 to 90 and 192 to 222 without 215; the lower-case letter is 32 above, which sets the
  bit of weight 32 (it is clear in all of them).
\<close>

definition lower_char :: "char \<Rightarrow> char" where
  "lower_char c =
     (let n = (of_char c :: nat)
      in if (65 \<le> n \<and> n \<le> 90) \<or> (192 \<le> n \<and> n \<le> 222 \<and> n \<noteq> 215)
         then (case c of Char b0 b1 b2 b3 b4 b5 b6 b7 \<Rightarrow> Char b0 b1 b2 b3 b4 True b6 b7)
         else c)"

definition lower :: "string \<Rightarrow> string" where
  "lower s = map lower_char s"

definition startswith :: "string \<Rightarrow> string \<Rightarrow> bool" where
  "startswith s p = (take (length p) s = p)"

text \<open>\<open>contains hay needle\<close> is Python's \<^verbatim>\<open>needle in hay\<close> on strings.\<close>

fun contains :: "string \<Rightarrow> string \<Rightarrow> bool" where
  "contains [] needle = (needle = [])"
| "contains (c # cs) needle = (startswith (c # cs) needle \<or> contains cs needle)"

definition digit_char :: "nat \<Rightarrow> char" where
  "digit_char d = ''0123456789'' ! d"

text \<open>The decimal digits of a natural number, most significant first.\<close>

function str_nat :: "nat \<Rightarrow> string" where
  "str_nat n = (if n < 10 then [digit_char n] else str_nat (n div 10) @ [digit_char (n mod 10)])"
  by pat_completeness auto
termination
  by (relation "measure (\<lambda>n. n)") auto

declare str_nat.simps [simp del]

definition str_int :: "int \<Rightarrow> string" where
  "str_int i = (if i < 0 then CHR ''-'' # str_nat (nat (- i)) else str_nat (nat i))"

text \<open>
  \<^verbatim>\<open>int(s)\<close> on a non-empty run of decimal digits. Python's integers are unbounded;
  the interpreter's optional limit on the number of digits that \<^verbatim>\<open>int\<close> accepts is
  not part of the model.
\<close>

definition int_of_digits :: "string \<Rightarrow> int" where
  "int_of_digits ds = foldl (\<lambda>n c. 10 * n + (int (of_char c) - 48)) 0 ds"

text \<open>
  \<^verbatim>\<open>re.search(r'\d+', s)\<close>: the first maximal run of digits of \<open>s\<close>, if there is one
  (\<^verbatim>\<open>m.group()\<close> of the match).
\<close>

definition search_digits :: "string \<Rightarrow> string option" where
  "search_digits s =
     (case dropWhile (\<lambda>c. \<not> isdigit c) s of
        [] \<Rightarrow> None
      | r \<Rightarrow> Some (takeWhile isdigit r))"

text \<open>
  \<^verbatim>\<open>re.search(r'\d+\s*(?:minutes?|mins?)', s, re.IGNORECASE)\<close>. The digits and the
  white space are matched greedily and giving some back never helps (the next character
  would be a digit or a space, not the letter m), so the match at a position is found
  without backtracking; the search takes the leftmost position that matches.
\<close>

definition match_unit :: "string \<Rightarrow> string option" where
  "match_unit s =
     (let l = lower s
      in if startswith l ''minute''
         then Some (take (if startswith l ''minutes'' then 7 else 6) s)
         else if startswith l ''min''
         then Some (take (if startswith l ''mins'' then 4 else 3) s)
         else None)"

definition match_duration_at :: "string \<Rightarrow> string option" where
  "match_duration_at s =
     (let ds = takeWhile isdigit s;
          r1 = dropWhile isdigit s;
          ws = takeWhile isspace r1;
          r2 = dropWhile isspace r1
      in if ds = [] then None
         else (case match_unit r2 of None \<Rightarrow> None | Some u \<Rightarrow> Some (ds @ ws @ u)))"

fun search_duration :: "string \<Rightarrow> string option" where
  "search_duration [] = None"
| "search_duration (c # cs) =
     (case match_duration_at (c # cs) of
        Some m \<Rightarrow> Some m
      | None \<Rightarrow> search_duration cs)"

section \<open>Data model\<close>

text \<open>The pydantic models \<^verbatim>\<open>QueryRequest\<close> and \<^verbatim>\<open>Assessment\<close>.\<close>

record query_request =
  "text" :: string
  max_results :: "int option"
  max_duration :: "int option"

record assessment =
  name :: string
  url :: string
  remote_testing :: bool
  adaptive_support :: bool
  duration :: string
  test_type :: string

text \<open>
  Python exceptions raised by the libraries and the built-ins, each with its message
  (\<^verbatim>\<open>str(e)\<close>), and FastAPI's \<^verbatim>\<open>HTTPException(status_code, detail)\<close>.
  \<^verbatim>\<open>requests.Timeout\<close> is a subclass of \<^verbatim>\<open>requests.RequestException\<close>; the
  constructor \<open>RequestException\<close> stands for the request exceptions that are not
  timeouts, and \<open>OtherException\<close> for every exception class that no handler names.
\<close>

datatype exn =
    Timeout string
  | RequestException string
  | ValueError string
  | TypeError string
  | OtherException string

fun str_exn :: "exn \<Rightarrow> string" where
  "str_exn (Timeout m) = m"
| "str_exn (RequestException m) = m"
| "str_exn (ValueError m) = m"
| "str_exn (TypeError m) = m"
| "str_exn (OtherException m) = m"

datatype http_exception = HTTPException nat string

fun status_code :: "http_exception \<Rightarrow> nat" where
  "status_code (HTTPException c d) = c"

fun detail :: "http_exception \<Rightarrow> string" where
  "detail (HTTPException c d) = d"

section \<open>Catalog extractor: \<^verbatim>\<open>scrape_shl_catalog\<close>\<close>

text \<open>
  BeautifulSoup is a library outside the repository, so the parsed page is taken as the
  answers it gives to the queries the code makes. Inside one section the code calls
  \<^verbatim>\<open>section.find(['h3', 'h2', '.assessment-title'])\<close>, \<^verbatim>\<open>section.find('a')\<close> and
  \<^verbatim>\<open>section.find(['p', '.assessment-description'])\<close>; each returns an element or
  \<^verbatim>\<open>None\<close>. The code reads \<^verbatim>\<open>.text\<close> of the first and third and \<^verbatim>\<open>.attrs\<close> of the
  second. An element found is always truthy, whatever it contains.
\<close>

record catalog_section =
  name_elem :: "string option"
  url_elem :: "(string \<times> string) list option"
  desc_elem :: "string option"

text \<open>
  The two class filters passed to \<^verbatim>\<open>soup.find_all\<close>:
  \<^verbatim>\<open>lambda x: x and any(c in x for c in classes)\<close> and
  \<^verbatim>\<open>lambda x: x and any(keyword in x.lower() for keyword in keywords)\<close>.
  A parsed page answers \<^verbatim>\<open>find_all(tags, class_=filter)\<close> with a list of sections.
\<close>

datatype class_filter = AnyIn "string list" | AnyInLower "string list"

type_synonym soup = "string list \<Rightarrow> class_filter \<Rightarrow> catalog_section list"

definition base_url :: string where
  "base_url = ''https://www.shl.com''"

definition max_retries :: nat where
  "max_retries = 3"

definition selector_patterns :: "(string list \<times> string list) list" where
  "selector_patterns =
     [([''div'', ''article''], [''product-card'', ''assessment-item'']),
      ([''div''], [''product'', ''assessment'', ''catalog-item'']),
      ([''section'', ''div''], [''product-listing'', ''assessment-listing''])]"

text \<open>The loop over the patterns: the first pattern with a match is used (\<^verbatim>\<open>break\<close>).\<close>

fun find_sections :: "soup \<Rightarrow> (string list \<times> string list) list \<Rightarrow> catalog_section list" where
  "find_sections page [] = []"
| "find_sections page ((tags, classes) # patterns) =
     (let sections = page tags (AnyIn classes)
      in if sections \<noteq> [] then sections else find_sections page patterns)"

definition no_sections_msg :: string where
  "no_sections_msg =
     ''No assessment sections found on the page. The page structure might have changed.''"

definition no_valid_msg :: string where
  "no_valid_msg = ''No valid assessments could be extracted from the page.''"

text \<open>Lines 64 to 83: the sections to read, or the \<^verbatim>\<open>ValueError\<close>.\<close>

definition assessment_sections :: "soup \<Rightarrow> exn + catalog_section list" where
  "assessment_sections page =
     (let found = find_sections page selector_patterns
      in if found = []
         then (let sections = page [''div'', ''article'', ''section'']
                                   (AnyInLower [''product'', ''assessment'', ''catalog''])
               in if sections \<noteq> [] then Inr sections
                  else Inl (ValueError no_sections_msg))
         else Inr found)"

definition extract_name :: "catalog_section \<Rightarrow> string" where
  "extract_name s = (case name_elem s of Some t \<Rightarrow> strip t | None \<Rightarrow> [])"

definition extract_url :: "catalog_section \<Rightarrow> string" where
  "extract_url s =
     (case url_elem s of
        None \<Rightarrow> []
      | Some attrs \<Rightarrow>
          (case map_of attrs ''href'' of
             None \<Rightarrow> []
           | Some href \<Rightarrow>
               if startswith href ''/'' then base_url @ href
               else if startswith href ''http'' then href
               else base_url @ ''/'' @ href))"

definition extract_description :: "catalog_section \<Rightarrow> string" where
  "extract_description s = (case desc_elem s of Some t \<Rightarrow> strip t | None \<Rightarrow> [])"

definition extract_duration :: "string \<Rightarrow> string" where
  "extract_duration description =
     (case search_duration description of Some m \<Rightarrow> m | None \<Rightarrow> ''Not specified'')"

definition any_keyword :: "string list \<Rightarrow> string \<Rightarrow> string \<Rightarrow> bool" where
  "any_keyword keywords description nm =
     list_ex (\<lambda>keyword. contains (lower description) keyword \<or> contains (lower nm) keyword)
       keywords"

definition extract_test_type :: "string \<Rightarrow> string \<Rightarrow> string" where
  "extract_test_type description nm =
     (if any_keyword [''cognitive'', ''ability'', ''aptitude''] description nm then ''Cognitive''
      else if any_keyword [''personality'', ''behavior'', ''style''] description nm
      then ''Personality''
      else if any_keyword [''skill'', ''proficiency'', ''knowledge''] description nm
      then ''Skills''
      else ''General'')"

text \<open>
  The loop over the sections (lines 85 to 130): a section is appended only when both
  its name and its url are non-empty.
\<close>

fun extract_assessments :: "catalog_section list \<Rightarrow> assessment list" where
  "extract_assessments [] = []"
| "extract_assessments (s # sections) =
     (let nm = extract_name s;
          u = extract_url s;
          description = extract_description s
      in if nm \<noteq> [] \<and> u \<noteq> []
         then \<lparr>name = nm, url = u, remote_testing = True, adaptive_support = False,
               duration = extract_duration description,
               test_type = extract_test_type description nm\<rparr>
              # extract_assessments sections
         else extract_assessments sections)"

text \<open>
  The body of the \<^verbatim>\<open>try\<close> once the page is parsed (lines 62 to 135): the list of
  records, or the \<^verbatim>\<open>ValueError\<close> it raises.
\<close>

definition parse_catalog :: "soup \<Rightarrow> exn + assessment list" where
  "parse_catalog page =
     (case assessment_sections page of
        Inl e \<Rightarrow> Inl e
      | Inr sections \<Rightarrow>
          (let assessments = extract_assessments sections
           in if assessments = [] then Inl (ValueError no_valid_msg) else Inr assessments))"

text \<open>
  The network is the outcome of each GET in the order they are sent: lines 57 to 60
  (\<^verbatim>\<open>session.get\<close>, \<^verbatim>\<open>raise_for_status\<close>, \<^verbatim>\<open>BeautifulSoup(...)\<close>) either raise or
  give the parsed page. The state threaded through the code is the number of GETs sent.
\<close>

type_synonym network = "nat \<Rightarrow> exn + soup"

definition try_body :: "exn + soup \<Rightarrow> exn + assessment list" where
  "try_body fetched = (case fetched of Inl e \<Rightarrow> Inl e | Inr page \<Rightarrow> parse_catalog page)"

text \<open>
  The \<^verbatim>\<open>for attempt in range(max_retries)\<close> loop with its handlers. A timeout or a
  request exception that is not on the last attempt is swallowed and the loop goes on;
  every other exception leaves the function at once. A loop that ran out of attempts
  would fall off the end of the function, which returns \<^verbatim>\<open>None\<close>.
\<close>

fun scrape_loop ::
  "network \<Rightarrow> nat list \<Rightarrow> nat \<Rightarrow> (http_exception + assessment list option) \<times> nat" where
  "scrape_loop net [] sent = (Inr None, sent)"
| "scrape_loop net (attempt # rest) sent =
     (case try_body (net sent) of
        Inr assessments \<Rightarrow> (Inr (Some assessments), Suc sent)
      | Inl (Timeout m) \<Rightarrow>
          if attempt = max_retries - 1
          then (Inl (HTTPException 503
                 ''Failed to fetch assessments: Connection timeout. Please try again later.''),
                Suc sent)
          else scrape_loop net rest (Suc sent)
      | Inl (RequestException m) \<Rightarrow>
          if attempt = max_retries - 1
          then (Inl (HTTPException 503 (''Failed to fetch assessments: Network error - '' @ m)),
                Suc sent)
          else scrape_loop net rest (Suc sent)
      | Inl (ValueError m) \<Rightarrow>
          (Inl (HTTPException 500 (''Failed to parse assessments: '' @ m)), Suc sent)
      | Inl e \<Rightarrow>
          (Inl (HTTPException 500 (''Unexpected error while fetching assessments: '' @ str_exn e)),
           Suc sent))"

definition scrape_shl_catalog ::
  "network \<Rightarrow> nat \<Rightarrow> (http_exception + assessment list option) \<times> nat" where
  "scrape_shl_catalog net sent = scrape_loop net [0..<max_retries] sent"

text \<open>
  A fetch that ended in \<^verbatim>\<open>requests.Timeout\<close> or in another
  \<^verbatim>\<open>requests.RequestException\<close>: the two classes the retry loop swallows.
\<close>

fun network_error :: "exn + soup \<Rightarrow> bool" where
  "network_error (Inl (Timeout m)) = True"
| "network_error (Inl (RequestException m)) = True"
| "network_error fetched = False"

section \<open>The request handler: \<^verbatim>\<open>recommend_assessments\<close>\<close>

text \<open>
  The embedding model and scikit-learn's \<^verbatim>\<open>cosine_similarity\<close> are outside the
  repository: \<open>encode\<close> is \<^verbatim>\<open>model.encode\<close> on a list of texts, \<open>cosine\<close> is
  \<^verbatim>\<open>cosine_similarity([q], vs)[0]\<close>. Either may raise. A similarity score is a finite
  floating-point number; it is modelled by the real number it denotes, with the same
  order and equality, and the literal \<^verbatim>\<open>0.1\<close> by the real number one tenth.
\<close>

record 'v engine =
  encode :: "string list \<Rightarrow> exn + 'v list"
  cosine :: "'v \<Rightarrow> 'v list \<Rightarrow> exn + real list"

definition process_query :: "'v engine \<Rightarrow> string \<Rightarrow> exn + 'v" where
  "process_query eng query =
     (case encode eng [query] of
        Inl e \<Rightarrow> Inl e
      | Inr [] \<Rightarrow> Inl (OtherException ''index 0 is out of bounds for axis 0 with size 0'')
      | Inr (v # vs) \<Rightarrow> Inr v)"

definition embedding_text :: "assessment \<Rightarrow> string" where
  "embedding_text a = name a @ '' '' @ test_type a @ '' assessment. Duration: '' @ duration a"

definition get_assessment_embeddings :: "'v engine \<Rightarrow> assessment list \<Rightarrow> exn + 'v list" where
  "get_assessment_embeddings eng assessments = encode eng (map embedding_text assessments)"

subsection \<open>Ranking: \<^verbatim>\<open>ranked_assessments.sort(reverse=True)\<close>\<close>

text \<open>
  The list sorted holds tuples \<^verbatim>\<open>(similarity, assessment)\<close> and no key is given, so
  the sort compares tuples with \<^verbatim>\<open><\<close>. Python compares tuples item by item: the
  first pair of items that are not equal decides, by \<^verbatim>\<open><\<close> on those items. The
  class \<^verbatim>\<open>Assessment\<close> has equality (field by field) and no order, so \<^verbatim>\<open><\<close> on two
  records that differ raises \<^verbatim>\<open>TypeError\<close>.
\<close>

definition not_supported_msg :: string where
  "not_supported_msg =
     [CHR 0x27] @ ''<'' @ [CHR 0x27] @ '' not supported between instances of ''
     @ [CHR 0x27] @ ''Assessment'' @ [CHR 0x27] @ '' and '' @ [CHR 0x27] @ ''Assessment''
     @ [CHR 0x27]"

definition tuple_lt :: "real \<times> assessment \<Rightarrow> real \<times> assessment \<Rightarrow> exn + bool" where
  "tuple_lt x y =
     (if fst x \<noteq> fst y then Inr (fst x < fst y)
      else if snd x \<noteq> snd y then Inl (TypeError not_supported_msg)
      else Inr False)"

text \<open>
  \<^verbatim>\<open>list.sort(reverse=True)\<close> is a stable sort into descending order that lets an
  exception of a comparison out. It is modelled as an insertion sort: each element is
  placed before the first element of the sorted rest that it is not less than, so it
  stays ahead of the later elements it ties with. The section on the ranking shows
  what the outcome is in terms of the list alone: the sort raises exactly when two
  entries have the same score and different records, and otherwise returns the entries
  in non-increasing order of score.
\<close>

fun insert_desc ::
  "real \<times> assessment \<Rightarrow> (real \<times> assessment) list \<Rightarrow> exn + (real \<times> assessment) list" where
  "insert_desc x [] = Inr [x]"
| "insert_desc x (y # ys) =
     (case tuple_lt x y of
        Inl e \<Rightarrow> Inl e
      | Inr True \<Rightarrow> (case insert_desc x ys of Inl e \<Rightarrow> Inl e | Inr zs \<Rightarrow> Inr (y # zs))
      | Inr False \<Rightarrow> Inr (x # y # ys))"

fun sort_reverse :: "(real \<times> assessment) list \<Rightarrow> exn + (real \<times> assessment) list" where
  "sort_reverse [] = Inr []"
| "sort_reverse (x # xs) =
     (case sort_reverse xs of Inl e \<Rightarrow> Inl e | Inr ys \<Rightarrow> insert_desc x ys)"

subsection \<open>Relevance floor and duration filter\<close>

text \<open>
  The loop of lines 208 to 224 decides each ranked entry on its own. \<open>within_duration\<close>
  is the duration test it makes on a record (lines 213 to 224) and \<open>keeps\<close> the whole
  test on an entry, relevance floor first; \<open>filter_loop\<close> is the loop itself. The
  test \<^verbatim>\<open>if request.max_duration:\<close> is on the truth value of an \<^verbatim>\<open>Optional[int]\<close>:
  \<^verbatim>\<open>None\<close> and 0 are false, every other integer is true.
\<close>

definition within_duration :: "int option \<Rightarrow> assessment \<Rightarrow> bool" where
  "within_duration md a =
     (case md of
        Some m \<Rightarrow>
          if m \<noteq> 0
          then (case search_digits (duration a) of
                  Some ds \<Rightarrow> int_of_digits ds \<le> m
                | None \<Rightarrow> True)
          else True
      | None \<Rightarrow> True)"

definition keeps :: "int option \<Rightarrow> real \<times> assessment \<Rightarrow> bool" where
  "keeps md entry = (\<not> fst entry < 1 / 10 \<and> within_duration md (snd entry))"

fun filter_loop :: "int option \<Rightarrow> (real \<times> assessment) list \<Rightarrow> assessment list" where
  "filter_loop md [] = []"
| "filter_loop md ((sim, a) # ranked) =
     (if sim < 1 / 10 then filter_loop md ranked
      else (case md of
              Some m \<Rightarrow>
                if m \<noteq> 0
                then (case search_digits (duration a) of
                        Some ds \<Rightarrow>
                          if int_of_digits ds \<le> m then a # filter_loop md ranked
                          else filter_loop md ranked
                      | None \<Rightarrow> a # filter_loop md ranked)
                else a # filter_loop md ranked
            | None \<Rightarrow> a # filter_loop md ranked))"

subsection \<open>Result assembly\<close>

text \<open>
  The slice \<^verbatim>\<open>xs[:stop]\<close>: everything for \<^verbatim>\<open>None\<close>, the first \<open>k\<close> entries for
  \<open>k \<ge> 0\<close>, all but the last \<open>- k\<close> entries for a negative \<open>k\<close>.
\<close>

definition slice_to :: "int option \<Rightarrow> 'a list \<Rightarrow> 'a list" where
  "slice_to stop xs =
     (case stop of
        None \<Rightarrow> xs
      | Some k \<Rightarrow> if 0 \<le> k then take (nat k) xs else take (nat (int (length xs) + k)) xs)"

definition no_relevant_msg :: string where
  "no_relevant_msg =
     ''No relevant assessments found for your query. Please try with different keywords.''"

definition duration_criteria_msg :: "int \<Rightarrow> string" where
  "duration_criteria_msg m =
     ''No assessments found matching the duration criteria of '' @ str_int m @ '' minutes''"

text \<open>Lines 206 to 240: filter the ranked list, then fail with 404 or answer.\<close>

definition respond ::
  "query_request \<Rightarrow> (real \<times> assessment) list \<Rightarrow> http_exception + assessment list" where
  "respond request ranked =
     (let filtered_assessments = filter_loop (max_duration request) ranked
      in if filtered_assessments = []
         then (case max_duration request of
                 Some m \<Rightarrow>
                   if m \<noteq> 0 then Inl (HTTPException 404 (duration_criteria_msg m))
                   else Inl (HTTPException 404 no_relevant_msg)
               | None \<Rightarrow> Inl (HTTPException 404 no_relevant_msg))
         else Inr (slice_to (max_results request) filtered_assessments))"

text \<open>
  Lines 199 to 204: the similarities, the list of tuples and its sort. An exception
  here is not an \<^verbatim>\<open>HTTPException\<close>; the handler's last clause turns it into a 500.
\<close>

definition rank :: "'v engine \<Rightarrow> 'v \<Rightarrow> 'v list \<Rightarrow> assessment list \<Rightarrow> exn + (real \<times> assessment) list" where
  "rank eng query_embedding assessment_embeddings assessments =
     (case cosine eng query_embedding assessment_embeddings of
        Inl e \<Rightarrow> Inl e
      | Inr similarities \<Rightarrow> sort_reverse (zip similarities assessments))"

text \<open>Lines 184 to 245, once the catalog call has returned.\<close>

definition recommend_from ::
  "'v engine \<Rightarrow> query_request \<Rightarrow> assessment list option \<Rightarrow> http_exception + assessment list" where
  "recommend_from eng request scraped =
     (case scraped of
        None \<Rightarrow>
          Inl (HTTPException 500
                ''Failed to fetch assessments from catalog. Please try again later.'')
      | Some [] \<Rightarrow>
          Inl (HTTPException 500
                ''Failed to fetch assessments from catalog. Please try again later.'')
      | Some assessments \<Rightarrow>
          (case process_query eng (text request) of
             Inl e \<Rightarrow> Inl (HTTPException 500 (''Error processing query: '' @ str_exn e))
           | Inr query_embedding \<Rightarrow>
               (case get_assessment_embeddings eng assessments of
                  Inl e \<Rightarrow>
                    Inl (HTTPException 500
                          (''Error generating assessment embeddings: '' @ str_exn e))
                | Inr assessment_embeddings \<Rightarrow>
                    (case rank eng query_embedding assessment_embeddings assessments of
                       Inl e \<Rightarrow>
                         Inl (HTTPException 500
                               (''An unexpected error occurred: '' @ str_exn e))
                     | Inr ranked_assessments \<Rightarrow> respond request ranked_assessments))))"

text \<open>
  The handler: the result and the number of GETs sent when it returns, from the number
  sent before the request.
\<close>

definition recommend_assessments ::
  "network \<Rightarrow> 'v engine \<Rightarrow> query_request \<Rightarrow> nat \<Rightarrow> (http_exception + assessment list) \<times> nat" where
  "recommend_assessments net eng request sent =
     (if strip (text request) = []
      then (Inl (HTTPException 400 ''Query text cannot be empty''), sent)
      else (case scrape_shl_catalog net sent of
              (Inl he, sent') \<Rightarrow> (Inl he, sent')
            | (Inr scraped, sent') \<Rightarrow> (recommend_from eng request scraped, sent')))"

section \<open>An example catalog\<close>

text \<open>
  A page with four sections, one of them without a name, the records the extractor
  makes of it, and an embedding engine that answers with given scores. They are the
  concrete inputs at which the theorems below are instantiated.
\<close>

definition java_section :: catalog_section where
  "java_section =
     \<lparr>name_elem = Some '' Java Programming Skills Test '',
      url_elem = Some [(''class'', ''link''), (''href'', ''/products/java/'')],
      desc_elem = Some ''Takes 40 minutes.''\<rparr>"

definition style_section :: catalog_section where
  "style_section =
     \<lparr>name_elem = Some ''Personality Style Inventory'',
      url_elem = Some [(''href'', ''https://www.shl.com/products/style/'')],
      desc_elem = Some ''About 30 Mins of questions''\<rparr>"

definition overview_section :: catalog_section where
  "overview_section =
     \<lparr>name_elem = Some ''Graduate Overview'',
      url_elem = Some [(''href'', ''products/overview/'')],
      desc_elem = None\<rparr>"

definition banner_section :: catalog_section where
  "banner_section =
     \<lparr>name_elem = Some ''   '', url_elem = Some [(''href'', ''/banner'')], desc_elem = None\<rparr>"

definition example_page :: soup where
  "example_page tags flt =
     (if flt = AnyIn [''product-card'', ''assessment-item'']
      then [java_section, banner_section, style_section, overview_section] else [])"

definition java_test :: assessment where
  "java_test =
     \<lparr>name = ''Java Programming Skills Test'', url = ''https://www.shl.com/products/java/'',
      remote_testing = True, adaptive_support = False, duration = ''40 minutes'',
      test_type = ''Skills''\<rparr>"

definition style_inventory :: assessment where
  "style_inventory =
     \<lparr>name = ''Personality Style Inventory'', url = ''https://www.shl.com/products/style/'',
      remote_testing = True, adaptive_support = False, duration = ''30 Mins'',
      test_type = ''Personality''\<rparr>"

definition graduate_overview :: assessment where
  "graduate_overview =
     \<lparr>name = ''Graduate Overview'', url = ''https://www.shl.com/products/overview/'',
      remote_testing = True, adaptive_support = False, duration = ''Not specified'',
      test_type = ''General''\<rparr>"

definition example_engine :: "real list \<Rightarrow> nat engine" where
  "example_engine scores =
     \<lparr>encode = (\<lambda>texts. Inr [0..<length texts]), cosine = (\<lambda>q vs. Inr (take (length vs) scores))\<rparr>"

definition example_net :: network where
  "example_net i = Inr example_page"

section \<open>Properties of the relevance floor and the duration filter\<close>

lemma filter_loop_keeps: "filter_loop md ranked = map snd (filter (keeps md) ranked)"
  by (induction md ranked rule: filter_loop.induct)
     (auto simp: keeps_def within_duration_def split: option.splits)

lemma filter_loop_member:
  "a \<in> set (filter_loop md ranked) \<Longrightarrow> \<exists>s. (s, a) \<in> set ranked \<and> keeps md (s, a)"
  by (auto simp: filter_loop_keeps)

lemma java_test_digits: "search_digits (duration java_test) = Some ''40''"
  by (simp add: java_test_def search_digits_def isdigit_def)

lemma style_inventory_digits: "search_digits (duration style_inventory) = Some ''30''"
  by (simp add: style_inventory_def search_digits_def isdigit_def)

lemma graduate_overview_digits: "search_digits (duration graduate_overview) = None"
  by (simp add: graduate_overview_def search_digits_def isdigit_def)

text \<open>
  C3. The relevance floor is inclusive. An entry whose score is strictly below 0.10 is
  discarded whatever the duration constraint: the loop gives what it gives without the
  entry. An entry whose score is exactly 0.10 passes the floor: its record is appended,
  unless the duration test, which does not look at the score, drops it; with no duration
  constraint that test passes every record, so the record is kept.
\<close>

theorem relevance_floor_inclusive:
  "(sim < 1 / 10 \<longrightarrow> filter_loop md (xs @ (sim, a) # ys) = filter_loop md (xs @ ys)) \<and>
   (sim = 1 / 10 \<longrightarrow>
      filter_loop md (xs @ (sim, a) # ys) =
        filter_loop md xs @ (if within_duration md a then [a] else []) @ filter_loop md ys) \<and>
   within_duration None a"
  by (simp add: filter_loop_keeps keeps_def within_duration_def)

theorem relevance_floor_inclusive_witness:
  "(1 / 20 :: real) < 1 / 10 \<and>
   filter_loop None ([(1 / 2, java_test)] @ (1 / 20, style_inventory) # [(1 / 10, graduate_overview)])
     = filter_loop None ([(1 / 2, java_test)] @ [(1 / 10, graduate_overview)]) \<and>
   filter_loop None ([(1 / 2, java_test)] @ (1 / 10, style_inventory) # [])
     = filter_loop None [(1 / 2, java_test)] @ [style_inventory] @ filter_loop None []"
  using relevance_floor_inclusive
          [of "1 / 20" None "[(1 / 2, java_test)]" style_inventory "[(1 / 10, graduate_overview)]"]
        relevance_floor_inclusive [of "1 / 10" None "[(1 / 2, java_test)]" style_inventory "[]"]
  by simp

text \<open>
  C4. An entry that passes the relevance floor and whose duration field holds no digit
  (\<^verbatim>\<open>re.search(r'\d+', ...)\<close> finds nothing, as in "Not specified") is appended under
  every value of \<^verbatim>\<open>max_duration\<close>: absent, zero, positive or negative.
\<close>

theorem unparseable_duration_kept:
  assumes "\<not> sim < 1 / 10" and "search_digits (duration a) = None"
  shows "filter_loop md (xs @ (sim, a) # ys) = filter_loop md xs @ a # filter_loop md ys"
  using assms by (simp add: filter_loop_keeps keeps_def within_duration_def split: option.splits)

theorem unparseable_duration_kept_witness:
  "\<not> (1 / 5 :: real) < 1 / 10 \<and> search_digits (duration graduate_overview) = None \<and>
   filter_loop (Some 1) ([(1 / 2, java_test)] @ (1 / 5, graduate_overview) # [])
     = filter_loop (Some 1) [(1 / 2, java_test)] @ graduate_overview # filter_loop (Some 1) []"
  using unparseable_duration_kept
          [of "1 / 5" graduate_overview "Some 1" "[(1 / 2, java_test)]" "[]"]
        graduate_overview_digits
  by simp

text \<open>
  C5. An entry that passes the relevance floor, whose duration field holds a number (the
  first run of digits, read as the integer \<open>d\<close>), under a positive constraint \<open>m\<close>: the
  loop appends its record exactly when \<open>d \<le> m\<close>, and the record is in the filtered list
  if and only if \<open>d \<le> m\<close>.
\<close>

theorem parseable_duration_iff:
  assumes "\<not> sim < 1 / 10" and "search_digits (duration a) = Some ds"
    and "int_of_digits ds = d" and "0 < m"
  shows "filter_loop (Some m) (xs @ (sim, a) # ys) =
           filter_loop (Some m) xs @ (if d \<le> m then [a] else []) @ filter_loop (Some m) ys \<and>
         (a \<in> set (filter_loop (Some m) (xs @ (sim, a) # ys)) \<longleftrightarrow> d \<le> m)"
proof -
  from assms have wd: "within_duration (Some m) a \<longleftrightarrow> d \<le> m"
    by (simp add: within_duration_def)
  with assms(1) have eq: "filter_loop (Some m) (xs @ (sim, a) # ys) =
           filter_loop (Some m) xs @ (if d \<le> m then [a] else []) @ filter_loop (Some m) ys"
    by (simp add: filter_loop_keeps keeps_def)
  have "a \<in> set (filter_loop (Some m) (xs @ (sim, a) # ys)) \<longleftrightarrow> d \<le> m"
  proof
    assume "a \<in> set (filter_loop (Some m) (xs @ (sim, a) # ys))"
    then obtain s where "keeps (Some m) (s, a)"
      using filter_loop_member by blast
    with wd show "d \<le> m" by (simp add: keeps_def)
  next
    assume "d \<le> m"
    with eq show "a \<in> set (filter_loop (Some m) (xs @ (sim, a) # ys))" by simp
  qed
  with eq show ?thesis by simp
qed

theorem parseable_duration_iff_witness:
  "\<not> (3 / 4 :: real) < 1 / 10 \<and> search_digits (duration java_test) = Some ''40'' \<and>
   int_of_digits ''40'' = 40 \<and> (0 :: int) < 35 \<and> \<not> (40 :: int) \<le> 35 \<and>
   filter_loop (Some 35) ([] @ (3 / 4, java_test) # [(1 / 2, style_inventory)])
     = filter_loop (Some 35) [] @ [] @ filter_loop (Some 35) [(1 / 2, style_inventory)] \<and>
   java_test \<notin> set (filter_loop (Some 35) ([] @ (3 / 4, java_test) # [(1 / 2, style_inventory)]))"
  using parseable_duration_iff
          [of "3 / 4" java_test "''40''" 40 35 "[]" "[(1 / 2, style_inventory)]"]
        java_test_digits
  by (simp add: int_of_digits_def)

section \<open>The example catalog, evaluated\<close>

lemma example_parse:
  "parse_catalog example_page = Inr [java_test, style_inventory, graduate_overview]"
  by (simp add: parse_catalog_def assessment_sections_def selector_patterns_def example_page_def
    java_section_def style_section_def overview_section_def banner_section_def
    java_test_def style_inventory_def graduate_overview_def extract_name_def extract_url_def
    extract_description_def extract_duration_def extract_test_type_def any_keyword_def
    strip_def isspace_def startswith_def base_url_def lower_def lower_char_def
    match_duration_at_def match_unit_def isdigit_def)

lemma range_retries: "[0..<max_retries] = [0, 1, 2]"
  by (simp add: max_retries_def upt_rec)

lemma example_scrape:
  "scrape_shl_catalog example_net sent =
     (Inr (Some [java_test, style_inventory, graduate_overview]), Suc sent)"
  by (simp add: scrape_shl_catalog_def range_retries example_net_def try_body_def example_parse)

lemma example_distinct:
  "java_test \<noteq> style_inventory" "java_test \<noteq> graduate_overview"
  "style_inventory \<noteq> graduate_overview"
  by (simp_all add: java_test_def style_inventory_def graduate_overview_def)

lemma example_embed:
  "process_query (example_engine scores) t = Inr 0"
  "get_assessment_embeddings (example_engine scores) [a, b, c] = Inr [0, 1, 2]"
  by (simp_all add: process_query_def get_assessment_embeddings_def example_engine_def upt_rec)

lemma messages_differ: "duration_criteria_msg m \<noteq> no_relevant_msg"
  by (simp add: duration_criteria_msg_def no_relevant_msg_def)

lemma keeps_zero: "keeps (Some 0) = keeps None"
  by (simp add: fun_eq_iff keeps_def within_duration_def)

section \<open>A zero duration constraint\<close>

text \<open>
  C10. With \<^verbatim>\<open>max_duration\<close> equal to 0 the handler behaves as with no constraint,
  because the code tests the truth value of the field: the loop keeps the same records,
  which are all the entries that pass the relevance floor whatever their duration; an
  empty result raises the 404 with the message of the case without a constraint; and
  the whole request gives the same result and sends the same GETs.
\<close>

theorem zero_max_duration_is_no_constraint:
  "filter_loop (Some 0) ranked = filter_loop None ranked \<and>
   filter_loop (Some 0) ranked = map snd (filter (\<lambda>entry. \<not> fst entry < 1 / 10) ranked) \<and>
   (filter_loop (Some 0) ranked = [] \<longrightarrow>
      respond (request\<lparr>max_duration := Some 0\<rparr>) ranked = Inl (HTTPException 404 no_relevant_msg)) \<and>
   recommend_assessments net eng (request\<lparr>max_duration := Some 0\<rparr>) sent
     = recommend_assessments net eng (request\<lparr>max_duration := None\<rparr>) sent"
proof -
  have loop: "filter_loop (Some 0) r = filter_loop None r" for r
    by (simp add: filter_loop_keeps keeps_zero)
  have "keeps (Some 0) = (\<lambda>entry. \<not> fst entry < 1 / 10)"
    by (simp add: fun_eq_iff keeps_def within_duration_def)
  then have all: "filter_loop (Some 0) ranked = map snd (filter (\<lambda>entry. \<not> fst entry < 1 / 10) ranked)"
    by (simp only: filter_loop_keeps)
  have resp: "respond (request\<lparr>max_duration := Some 0\<rparr>) r = respond (request\<lparr>max_duration := None\<rparr>) r"
    for r
    by (simp add: respond_def loop Let_def)
  have "recommend_from eng (request\<lparr>max_duration := Some 0\<rparr>) scraped
          = recommend_from eng (request\<lparr>max_duration := None\<rparr>) scraped" for scraped
    by (simp add: recommend_from_def resp split: option.splits list.splits sum.splits)
  then have "recommend_assessments net eng (request\<lparr>max_duration := Some 0\<rparr>) sent
     = recommend_assessments net eng (request\<lparr>max_duration := None\<rparr>) sent"
    by (simp add: recommend_assessments_def split: prod.splits sum.splits)
  moreover have "filter_loop (Some 0) ranked = [] \<longrightarrow>
      respond (request\<lparr>max_duration := Some 0\<rparr>) ranked = Inl (HTTPException 404 no_relevant_msg)"
    by (simp add: respond_def Let_def)
  ultimately show ?thesis using loop all by simp
qed

theorem zero_max_duration_is_no_constraint_witness:
  "filter_loop (Some 0) [(3 / 4, java_test), (1 / 20, style_inventory)] = [java_test] \<and>
   filter_loop (Some 0) [(1 / 20, style_inventory)] = [] \<and>
   respond (\<lparr>text = ''java'', max_results = Some 10, max_duration = Some 1\<rparr>\<lparr>max_duration := Some 0\<rparr>)
      [(1 / 20, style_inventory)] = Inl (HTTPException 404 no_relevant_msg)"
  using zero_max_duration_is_no_constraint
          [where ranked = "[(3 / 4, java_test), (1 / 20, style_inventory)]"
             and request = "\<lparr>text = ''java'', max_results = Some 10, max_duration = Some 1\<rparr>"
             and net = example_net and eng = "example_engine []" and sent = 0]
        zero_max_duration_is_no_constraint
          [where ranked = "[(1 / 20, style_inventory)]"
             and request = "\<lparr>text = ''java'', max_results = Some 10, max_duration = Some 1\<rparr>"
             and net = example_net and eng = "example_engine []" and sent = 0]
  by simp

section \<open>The handler after a successful catalog call\<close>

lemma parse_catalog_nonempty: "parse_catalog page = Inr assessments \<Longrightarrow> assessments \<noteq> []"
  by (auto simp: parse_catalog_def Let_def split: sum.splits if_splits)

lemma scrape_loop_Some:
  "scrape_loop net attempts sent = (Inr (Some assessments), sent') \<Longrightarrow>
     \<exists>i page. sent \<le> i \<and> sent' = Suc i \<and> net i = Inr page \<and> parse_catalog page = Inr assessments"
proof (induction attempts arbitrary: sent)
  case Nil
  then show ?case by simp
next
  case (Cons attempt rest)
  show ?case
  proof (cases "try_body (net sent)")
    case (Inr found)
    with Cons.prems have "found = assessments" "sent' = Suc sent" by simp_all
    with Inr show ?thesis
      by (cases "net sent") (auto simp: try_body_def)
  next
    case (Inl e)
    with Cons.prems have "scrape_loop net rest (Suc sent) = (Inr (Some assessments), sent')"
      by (cases e) (auto split: if_splits)
    from Cons.IH [OF this] show ?thesis
      using Suc_leD by blast
  qed
qed

lemma scrape_nonempty:
  "scrape_shl_catalog net sent = (Inr (Some assessments), sent') \<Longrightarrow> assessments \<noteq> []"
  unfolding scrape_shl_catalog_def
  by (blast dest: scrape_loop_Some parse_catalog_nonempty)

lemma recommend_ranked:
  assumes "strip (text request) \<noteq> []"
    and "scrape_shl_catalog net sent = (Inr (Some assessments), sent')"
    and "process_query eng (text request) = Inr q"
    and "get_assessment_embeddings eng assessments = Inr embs"
    and "rank eng q embs assessments = Inr ranked"
  shows "recommend_assessments net eng request sent = (respond request ranked, sent')"
proof -
  from assms(2) obtain a rest where "assessments = a # rest"
    using scrape_nonempty by (cases assessments) auto
  with assms show ?thesis
    by (simp add: recommend_assessments_def recommend_from_def)
qed

lemma example_rank_low:
  "rank (example_engine [1 / 2, 3 / 4, 1 / 20]) q [0, 1, 2] [java_test, style_inventory, graduate_overview]
    = Inr [(3 / 4, style_inventory), (1 / 2, java_test), (1 / 20, graduate_overview)]"
  by (simp add: rank_def example_engine_def tuple_lt_def)

lemma text_java: "strip (text \<lparr>text = ''java'', max_results = k, max_duration = md\<rparr>) \<noteq> []"
  by (simp add: strip_def isspace_def)

section \<open>The 404 messages\<close>

text \<open>
  C6, as the code has it. When the catalog call, the embeddings and the ranking succeed
  and the filtered list is empty, the request fails with status 404 and no further GET.
  The message is the duration-criteria message, with the constraint in it, exactly when
  a non-zero \<^verbatim>\<open>max_duration\<close> was supplied, and the no-relevant-assessments message
  otherwise; the two messages are never the same string. The message follows the
  presence of the constraint, not which filter removed the candidates.
\<close>

theorem not_found_message:
  assumes "strip (text request) \<noteq> []"
    and "scrape_shl_catalog net sent = (Inr (Some assessments), sent')"
    and "process_query eng (text request) = Inr q"
    and "get_assessment_embeddings eng assessments = Inr embs"
    and "rank eng q embs assessments = Inr ranked"
    and "filter_loop (max_duration request) ranked = []"
  shows "recommend_assessments net eng request sent =
           (Inl (HTTPException 404
                  (case max_duration request of
                     Some m \<Rightarrow> if m \<noteq> 0 then duration_criteria_msg m else no_relevant_msg
                   | None \<Rightarrow> no_relevant_msg)), sent') \<and>
         (\<forall>m. duration_criteria_msg m \<noteq> no_relevant_msg)"
proof -
  have "recommend_assessments net eng request sent = (respond request ranked, sent')"
    using assms(1-5) by (rule recommend_ranked)
  with assms(6) show ?thesis
    by (simp add: respond_def messages_differ split: option.splits)
qed

theorem not_found_message_witness:
  "recommend_assessments example_net (example_engine [1 / 2, 3 / 4, 1 / 20])
     \<lparr>text = ''java'', max_results = Some 10, max_duration = Some 20\<rparr> 0
    = (Inl (HTTPException 404
        ''No assessments found matching the duration criteria of 20 minutes''), 1)"
proof -
  let ?request = "\<lparr>text = ''java'', max_results = Some 10, max_duration = Some 20\<rparr>"
  let ?ranked = "[(3 / 4, style_inventory), (1 / 2, java_test), (1 / 20, graduate_overview)]"
  have h1: "strip (text ?request) \<noteq> []" by (rule text_java)
  have h2: "scrape_shl_catalog example_net 0 =
              (Inr (Some [java_test, style_inventory, graduate_overview]), 1)"
    by (simp add: example_scrape)
  have h3: "process_query (example_engine [1 / 2, 3 / 4, 1 / 20]) (text ?request) = Inr 0"
    by (rule example_embed)
  have h4: "get_assessment_embeddings (example_engine [1 / 2, 3 / 4, 1 / 20])
              [java_test, style_inventory, graduate_overview] = Inr [0, 1, 2]"
    by (rule example_embed)
  have h5: "rank (example_engine [1 / 2, 3 / 4, 1 / 20]) 0 [0, 1, 2]
              [java_test, style_inventory, graduate_overview] = Inr ?ranked"
    by (rule example_rank_low)
  have h6: "filter_loop (max_duration ?request) ?ranked = []"
    by (simp add: java_test_digits style_inventory_digits int_of_digits_def)
  show ?thesis
    using not_found_message [OF h1 h2 h3 h4 h5 h6]
    by (simp add: duration_criteria_msg_def str_int_def str_nat.simps digit_char_def)
qed

text \<open>
  The message does not tell which constraint emptied the set. Here every candidate is
  below the relevance floor and every record passes the duration test for 60 minutes:
  the set is empty with and without the constraint, yet with the constraint supplied
  the message is the duration-criteria one.
\<close>

theorem not_found_message_counterexample:
  "recommend_assessments example_net (example_engine [1 / 20, 1 / 30, 1 / 40])
     \<lparr>text = ''java'', max_results = Some 10, max_duration = Some 60\<rparr> 0
    = (Inl (HTTPException 404
        ''No assessments found matching the duration criteria of 60 minutes''), 1) \<and>
   recommend_assessments example_net (example_engine [1 / 20, 1 / 30, 1 / 40])
     \<lparr>text = ''java'', max_results = Some 10, max_duration = None\<rparr> 0
    = (Inl (HTTPException 404
        ''No relevant assessments found for your query. Please try with different keywords.''), 1) \<and>
   within_duration (Some 60) java_test \<and> within_duration (Some 60) style_inventory \<and>
   within_duration (Some 60) graduate_overview"
  using example_scrape [of 0] example_embed
        java_test_digits style_inventory_digits graduate_overview_digits
  by (simp add: recommend_assessments_def recommend_from_def rank_def example_engine_def
        tuple_lt_def respond_def strip_def isspace_def duration_criteria_msg_def no_relevant_msg_def
        str_int_def str_nat.simps digit_char_def within_duration_def int_of_digits_def)

section \<open>Validation of the query text\<close>

lemma strip_empty_iff: "strip s = [] \<longleftrightarrow> (\<forall>c \<in> set s. isspace c)"
proof
  assume "strip s = []"
  then have all: "\<forall>x \<in> set (dropWhile isspace s). isspace x"
    by (simp add: strip_def)
  have "dropWhile isspace s = []"
  proof (cases "dropWhile isspace s")
    case Nil
    then show ?thesis .
  next
    case (Cons y ys)
    then have "\<not> isspace y" by (metis hd_dropWhile list.sel(1) list.distinct(1))
    with all Cons show ?thesis by simp
  qed
  then show "\<forall>c \<in> set s. isspace c" by simp
next
  assume "\<forall>c \<in> set s. isspace c"
  then have "dropWhile isspace s = []" by simp
  then have "strip s = rev (dropWhile isspace (rev []))" by (simp only: strip_def)
  then show "strip s = []" by simp
qed

text \<open>
  C8. A request whose text is empty or holds only white space fails with status 400,
  whatever the network and the embedding engine would answer, and the number of GETs
  sent is the number sent before the request: the catalog is not fetched.
\<close>

theorem blank_text_rejected:
  assumes "\<forall>c \<in> set (text request). isspace c"
  shows "recommend_assessments net eng request sent =
           (Inl (HTTPException 400 ''Query text cannot be empty''), sent)"
proof -
  from assms have "strip (text request) = []" by (simp add: strip_empty_iff)
  then show ?thesis by (simp add: recommend_assessments_def)
qed

theorem blank_text_rejected_witness:
  "isspace (CHR '' '') \<and> isspace (CHR 0x09) \<and> isspace (CHR 0x0A) \<and>
   recommend_assessments example_net (example_engine [1 / 2, 3 / 4, 1 / 5])
     \<lparr>text = [CHR '' '', CHR 0x09, CHR 0x0A], max_results = Some 10, max_duration = None\<rparr> 7
     = (Inl (HTTPException 400 ''Query text cannot be empty''), 7) \<and>
   recommend_assessments example_net (example_engine [1 / 2, 3 / 4, 1 / 5])
     \<lparr>text = [], max_results = Some 10, max_duration = None\<rparr> 7
     = (Inl (HTTPException 400 ''Query text cannot be empty''), 7)"
  using blank_text_rejected
          [where request = "\<lparr>text = [CHR '' '', CHR 0x09, CHR 0x0A], max_results = Some 10,
                             max_duration = None\<rparr>"
             and net = example_net and eng = "example_engine [1 / 2, 3 / 4, 1 / 5]" and sent = 7]
        blank_text_rejected
          [where request = "\<lparr>text = [], max_results = Some 10, max_duration = None\<rparr>"
             and net = example_net and eng = "example_engine [1 / 2, 3 / 4, 1 / 5]" and sent = 7]
  by (simp add: isspace_def)

section \<open>The catalog fetch\<close>

lemma scrape_loop_retry:
  "network_error (net sent) \<Longrightarrow> attempt < 2 \<Longrightarrow>
     scrape_loop net (attempt # rest) sent = scrape_loop net rest (Suc sent)"
  by (cases "net sent" rule: network_error.cases) (simp_all add: try_body_def max_retries_def)

lemma scrape_unfold: "scrape_shl_catalog net sent = scrape_loop net [0, 1, 2] sent"
  by (simp only: scrape_shl_catalog_def range_retries)

lemma parse_catalog_error:
  "parse_catalog page = Inl e \<Longrightarrow> e = ValueError no_sections_msg \<or> e = ValueError no_valid_msg"
  by (auto simp: parse_catalog_def assessment_sections_def Let_def split: sum.splits if_splits)

lemma scrape_loop_parse_failure:
  "net sent = Inr page \<Longrightarrow> parse_catalog page = Inl e \<Longrightarrow>
     scrape_loop net (attempt # rest) sent =
       (Inl (HTTPException 500 (''Failed to parse assessments: '' @ str_exn e)), Suc sent)"
  by (auto simp: try_body_def dest: parse_catalog_error)

text \<open>
  C7. Let attempt \<open>k\<close> (0, 1 or 2) be reached, which means that every earlier
  attempt ended in a timeout or a network error. A timeout or a network error on the
  final attempt (\<open>k = 2\<close>) gives status 503 after three GETs. A page that cannot be
  parsed into records, on any attempt, gives status 500 at once: the GET of attempt
  \<open>k\<close> is the last one sent. The two failures carry different status codes.
\<close>

theorem fetch_failure_classes:
  assumes "k < 3" and "\<forall>i<k. network_error (net (sent + i))"
  shows "(k = 2 \<and> net (sent + k) = Inl (Timeout m) \<longrightarrow>
            scrape_shl_catalog net sent =
              (Inl (HTTPException 503
                ''Failed to fetch assessments: Connection timeout. Please try again later.''),
               sent + 3)) \<and>
         (k = 2 \<and> net (sent + k) = Inl (RequestException m) \<longrightarrow>
            scrape_shl_catalog net sent =
              (Inl (HTTPException 503 (''Failed to fetch assessments: Network error - '' @ m)),
               sent + 3)) \<and>
         (net (sent + k) = Inr page \<and> parse_catalog page = Inl e \<longrightarrow>
            scrape_shl_catalog net sent =
              (Inl (HTTPException 500 (''Failed to parse assessments: '' @ str_exn e)),
               sent + k + 1))"
proof -
  from assms(1) consider "k = 0" | "k = 1" | "k = 2" by linarith
  then show ?thesis
  proof cases
    case 1
    then show ?thesis
      by (simp add: scrape_unfold scrape_loop_parse_failure del: scrape_loop.simps)
  next
    case 2
    with assms(2) have "network_error (net sent)" by simp
    then have "scrape_shl_catalog net sent = scrape_loop net [1, 2] (Suc sent)"
      by (simp add: scrape_unfold scrape_loop_retry del: scrape_loop.simps)
    with 2 show ?thesis
      by (simp add: scrape_loop_parse_failure del: scrape_loop.simps)
  next
    case 3
    with assms(2) have "network_error (net sent)" "network_error (net (Suc sent))"
      using less_2_cases_iff by (force, force)
    then have "scrape_shl_catalog net sent = scrape_loop net [2] (Suc (Suc sent))"
      by (simp add: scrape_unfold scrape_loop_retry del: scrape_loop.simps)
    moreover have "net (Suc (Suc sent)) = Inr page \<and> parse_catalog page = Inl e \<longrightarrow>
        scrape_loop net [2] (Suc (Suc sent)) =
          (Inl (HTTPException 500 (''Failed to parse assessments: '' @ str_exn e)), sent + 3)"
      by (simp add: scrape_loop_parse_failure del: scrape_loop.simps)
    moreover have "net (Suc (Suc sent)) = Inl (Timeout m) \<longrightarrow>
        scrape_loop net [2] (Suc (Suc sent)) =
          (Inl (HTTPException 503
            ''Failed to fetch assessments: Connection timeout. Please try again later.''),
           sent + 3)"
      by (simp add: try_body_def max_retries_def)
    moreover have "net (Suc (Suc sent)) = Inl (RequestException m) \<longrightarrow>
        scrape_loop net [2] (Suc (Suc sent)) =
          (Inl (HTTPException 503 (''Failed to fetch assessments: Network error - '' @ m)),
           sent + 3)"
      by (simp add: try_body_def max_retries_def)
    ultimately show ?thesis using 3 by simp
  qed
qed


theorem fetch_failure_classes_witness:
  "scrape_shl_catalog (\<lambda>i. Inl (Timeout ''timed out'')) 0 =
     (Inl (HTTPException 503
        ''Failed to fetch assessments: Connection timeout. Please try again later.''), 3) \<and>
   scrape_shl_catalog (\<lambda>i. if i = 0 then Inl (RequestException ''reset'') else Inr (\<lambda>tags flt. [])) 0 =
     (Inl (HTTPException 500 (''Failed to parse assessments: '' @ no_sections_msg)), 2)"
proof -
  let ?down = "\<lambda>i :: nat. Inl (Timeout ''timed out'') :: exn + soup"
  let ?bare = "\<lambda>i :: nat. if i = 0 then Inl (RequestException ''reset'') else Inr (\<lambda>tags flt. [])
                 :: exn + soup"
  have k2: "(2 :: nat) < 3" and k1: "(1 :: nat) < 3" by simp_all
  have down: "\<forall>i<2. network_error (?down (0 + i))" by simp
  have bare: "\<forall>i<1. network_error (?bare (0 + i))" by simp
  have parse: "parse_catalog (\<lambda>tags flt. []) = Inl (ValueError no_sections_msg)"
    by (simp add: parse_catalog_def assessment_sections_def selector_patterns_def)
  show ?thesis
    using fetch_failure_classes [OF k2 down, of "''timed out''"]
          fetch_failure_classes [OF k1 bare, of _ "\<lambda>tags flt. []" "ValueError no_sections_msg"]
          parse
    by simp
qed

section \<open>The records of the extractor\<close>

lemma extract_assessments_valid:
  "a \<in> set (extract_assessments sections) \<Longrightarrow> name a \<noteq> [] \<and> url a \<noteq> []"
  by (induction sections) (auto simp: Let_def split: if_splits)

lemma extract_assessments_names:
  "map name (extract_assessments sections) =
     map extract_name (filter (\<lambda>s. extract_name s \<noteq> [] \<and> extract_url s \<noteq> []) sections)"
  by (induction sections) (auto simp: Let_def)

lemma parse_catalog_valid:
  "parse_catalog page = Inr assessments \<Longrightarrow> a \<in> set assessments \<Longrightarrow> name a \<noteq> [] \<and> url a \<noteq> []"
  by (auto simp: parse_catalog_def Let_def split: sum.splits if_splits
           dest: extract_assessments_valid)

lemma scrape_loop_not_None:
  "attempts \<noteq> [] \<Longrightarrow> last attempts = max_retries - 1 \<Longrightarrow>
     fst (scrape_loop net attempts sent) \<noteq> Inr None"
proof (induction attempts arbitrary: sent)
  case Nil
  then show ?case by simp
next
  case (Cons attempt rest)
  show ?case
  proof (cases rest)
    case Nil
    with Cons.prems show ?thesis
      by (auto split: sum.splits exn.splits)
  next
    case (Cons b bs)
    with Cons.prems Cons.IH show ?thesis
      by (auto split: sum.splits exn.splits)
  qed
qed

text \<open>
  C9. Every record of a successful catalog call has a non-empty name and a non-empty
  url, and the call never returns an empty list or no list. The records are made of
  exactly the sections whose name and url are both non-empty, in order: the other
  sections are dropped. When the sections found all lack a name or a url, the call
  fails with status 500 and the no-valid-assessments message, on the attempt itself.
\<close>

theorem extractor_records_valid:
  "(scrape_shl_catalog net sent = (Inr (Some assessments), sent') \<longrightarrow>
      assessments \<noteq> [] \<and> (\<forall>a \<in> set assessments. name a \<noteq> [] \<and> url a \<noteq> [])) \<and>
   fst (scrape_shl_catalog net sent) \<noteq> Inr None \<and>
   map name (extract_assessments sections) =
     map extract_name (filter (\<lambda>s. extract_name s \<noteq> [] \<and> extract_url s \<noteq> []) sections) \<and>
   (net sent = Inr page \<and> assessment_sections page = Inr sections \<and>
    (\<forall>s \<in> set sections. extract_name s = [] \<or> extract_url s = []) \<longrightarrow>
      scrape_shl_catalog net sent =
        (Inl (HTTPException 500 (''Failed to parse assessments: '' @ no_valid_msg)), Suc sent))"
proof -
  have valid: "scrape_shl_catalog net sent = (Inr (Some assessments), sent') \<longrightarrow>
      assessments \<noteq> [] \<and> (\<forall>a \<in> set assessments. name a \<noteq> [] \<and> url a \<noteq> [])"
    unfolding scrape_shl_catalog_def
    by (blast dest: scrape_loop_Some parse_catalog_nonempty parse_catalog_valid)
  have some: "fst (scrape_shl_catalog net sent) \<noteq> Inr None"
    unfolding scrape_unfold by (rule scrape_loop_not_None) (simp_all add: max_retries_def)
  have none: "scrape_shl_catalog net sent =
        (Inl (HTTPException 500 (''Failed to parse assessments: '' @ no_valid_msg)), Suc sent)"
    if page: "net sent = Inr page" and secs: "assessment_sections page = Inr sections"
      and bad: "\<forall>s \<in> set sections. extract_name s = [] \<or> extract_url s = []"
  proof -
    from bad have "extract_assessments sections = []"
      by (induction sections) (auto simp: Let_def)
    with secs have "parse_catalog page = Inl (ValueError no_valid_msg)"
      by (simp add: parse_catalog_def)
    with page show ?thesis
      using scrape_loop_parse_failure [of net sent page "ValueError no_valid_msg" 0 "[1, 2]"]
      by (simp add: scrape_unfold del: scrape_loop.simps)
  qed
  from valid some none extract_assessments_names show ?thesis by blast
qed

theorem extractor_records_valid_witness:
  "scrape_shl_catalog example_net 0
     = (Inr (Some [java_test, style_inventory, graduate_overview]), 1) \<and>
   name java_test \<noteq> [] \<and> url java_test \<noteq> [] \<and>
   name style_inventory \<noteq> [] \<and> url style_inventory \<noteq> [] \<and>
   name graduate_overview \<noteq> [] \<and> url graduate_overview \<noteq> [] \<and>
   scrape_shl_catalog (\<lambda>i. Inr (\<lambda>tags flt. if tags = [''div''] then [banner_section] else [])) 0
     = (Inl (HTTPException 500 (''Failed to parse assessments: '' @ no_valid_msg)), 1)"
proof -
  let ?page = "\<lambda>tags flt. if tags = [''div''] then [banner_section] else []"
  have secs: "assessment_sections ?page = Inr [banner_section]"
    by (simp add: assessment_sections_def selector_patterns_def)
  have bad: "\<forall>s \<in> set [banner_section]. extract_name s = [] \<or> extract_url s = []"
    by (simp add: banner_section_def extract_name_def strip_def isspace_def)
  show ?thesis
    using extractor_records_valid
            [where net = example_net and sent = 0 and sent' = 1
               and assessments = "[java_test, style_inventory, graduate_overview]"
               and sections = "[]"]
          extractor_records_valid
            [where net = "\<lambda>i. Inr ?page" and sent = 0 and page = ?page
               and sections = "[banner_section]"]
          example_scrape [of 0] secs bad
    by simp
qed

section \<open>Properties of the ranking\<close>

text \<open>
  When the sort returns, its result is a rearrangement of the list in non-increasing
  order of score, and no two entries of the list had the same score with different
  records. When two entries do, the sort raises.
\<close>

lemma insert_desc_mset: "insert_desc x ys = Inr zs \<Longrightarrow> mset zs = add_mset x (mset ys)"
  by (induction ys arbitrary: zs) (auto simp: tuple_lt_def split: sum.splits bool.splits if_splits)

lemma sort_reverse_mset: "sort_reverse xs = Inr ys \<Longrightarrow> mset ys = mset xs"
  by (induction xs arbitrary: ys) (auto split: sum.splits dest: insert_desc_mset)

lemma insert_desc_sorted:
  "insert_desc x ys = Inr zs \<Longrightarrow> sorted_wrt (\<lambda>p q. fst q \<le> fst p) ys
     \<Longrightarrow> sorted_wrt (\<lambda>p q. fst q \<le> fst p) zs"
proof (induction ys arbitrary: zs)
  case Nil
  then show ?case by auto
next
  case (Cons y ys)
  show ?case
  proof (cases "tuple_lt x y")
    case (Inl e)
    with Cons.prems show ?thesis by simp
  next
    case (Inr b)
    show ?thesis
    proof (cases b)
      case True
      with Inr Cons.prems obtain ws where ws: "insert_desc x ys = Inr ws" and zs: "zs = y # ws"
        by (auto split: sum.splits)
      from True Inr have lt: "fst x < fst y"
        by (auto simp: tuple_lt_def split: if_splits)
      have "sorted_wrt (\<lambda>p q. fst q \<le> fst p) ws"
        using Cons.IH [OF ws] Cons.prems(2) by simp
      moreover have "\<forall>w \<in> set ws. fst w \<le> fst y"
      proof -
        have "set ws = insert x (set ys)"
          using insert_desc_mset [OF ws] by (metis set_mset_add_mset_insert set_mset_mset)
        with lt Cons.prems(2) show ?thesis by auto
      qed
      ultimately show ?thesis using zs by simp
    next
      case False
      with Inr Cons.prems have zs: "zs = x # y # ys" by simp
      from False Inr have ge: "fst y \<le> fst x"
        by (auto simp: tuple_lt_def split: if_splits)
      with Cons.prems(2) zs show ?thesis by fastforce
    qed
  qed
qed

lemma sort_reverse_sorted:
  "sort_reverse xs = Inr ys \<Longrightarrow> sorted_wrt (\<lambda>p q. fst q \<le> fst p) ys"
  by (induction xs arbitrary: ys) (auto split: sum.splits dest: insert_desc_sorted)

text \<open>A comparison of two entries with the same score and different records raises.\<close>

lemma insert_desc_tie:
  "sorted_wrt (\<lambda>p q. fst q \<le> fst p) ys \<Longrightarrow> y \<in> set ys \<Longrightarrow> fst y = fst x \<Longrightarrow>
   \<forall>p \<in> set ys. \<forall>q \<in> set ys. fst p = fst q \<longrightarrow> snd p = snd q \<Longrightarrow>
   insert_desc x ys = Inr zs \<Longrightarrow> snd y = snd x"
proof (induction ys arbitrary: zs)
  case Nil
  then show ?case by simp
next
  case (Cons w ws)
  show ?case
  proof (cases "fst x = fst w")
    case True
    with Cons.prems(5) have "snd x = snd w"
      by (auto simp: tuple_lt_def split: if_splits)
    moreover have "snd y = snd w"
    proof -
      have "y \<in> set (w # ws)" "w \<in> set (w # ws)" "fst y = fst w"
        using Cons.prems(2,3) True by simp_all
      with Cons.prems(4) [rule_format, of y w] show ?thesis by simp
    qed
    ultimately show ?thesis by simp
  next
    case False
    show ?thesis
    proof (cases "fst x < fst w")
      case True
      with False Cons.prems(5) obtain vs where ins: "insert_desc x ws = Inr vs"
        by (auto simp: tuple_lt_def split: sum.splits)
      from False Cons.prems(2,3) have yin: "y \<in> set ws" by auto
      from Cons.prems(1) have srt: "sorted_wrt (\<lambda>p q. fst q \<le> fst p) ws" by simp
      have free: "\<forall>p \<in> set ws. \<forall>q \<in> set ws. fst p = fst q \<longrightarrow> snd p = snd q"
        using Cons.prems(4) by (meson list.set_intros(2))
      show ?thesis
        by (rule Cons.IH [OF srt yin Cons.prems(3) free ins])
    next
      case gt: False
      with False have "fst w < fst x" by linarith
      moreover from Cons.prems(1,2) have "fst y \<le> fst w" by auto
      ultimately show ?thesis using Cons.prems(3) by linarith
    qed
  qed
qed

lemma sort_reverse_no_tie:
  "sort_reverse xs = Inr ys \<Longrightarrow> p \<in> set xs \<Longrightarrow> q \<in> set xs \<Longrightarrow> fst p = fst q \<Longrightarrow>
     snd p = snd q"
proof (induction xs arbitrary: ys p q)
  case Nil
  then show ?case by simp
next
  case (Cons x xs)
  from Cons.prems(1) obtain ws where ws: "sort_reverse xs = Inr ws"
    and ins: "insert_desc x ws = Inr ys"
    by (auto split: sum.splits)
  have sorted: "sorted_wrt (\<lambda>p q. fst q \<le> fst p) ws" using ws by (rule sort_reverse_sorted)
  have set_ws: "set ws = set xs" using sort_reverse_mset [OF ws] by (metis set_mset_mset)
  have free: "\<forall>p \<in> set ws. \<forall>q \<in> set ws. fst p = fst q \<longrightarrow> snd p = snd q"
    using Cons.IH [OF ws] set_ws by blast
  have tie: "snd y = snd x" if "y \<in> set xs" "fst y = fst x" for y
    using insert_desc_tie [OF sorted _ _ free ins] that set_ws by blast
  from Cons.prems(2,3) consider "p = x" "q = x" | "p = x" "q \<in> set xs" | "p \<in> set xs" "q = x"
    | "p \<in> set xs" "q \<in> set xs" by auto
  then show ?case
  proof cases
    case 1 then show ?thesis by simp
  next
    case 2 with tie [of q] Cons.prems(4) show ?thesis by simp
  next
    case 3 with tie [of p] Cons.prems(4) show ?thesis by simp
  next
    case 4 with Cons.IH [OF ws] Cons.prems(4) show ?thesis by blast
  qed
qed

lemma insert_desc_error: "insert_desc x ys = Inl e \<Longrightarrow> e = TypeError not_supported_msg"
  by (induction ys) (auto simp: tuple_lt_def split: sum.splits bool.splits if_splits)

lemma sort_reverse_error: "sort_reverse xs = Inl e \<Longrightarrow> e = TypeError not_supported_msg"
  by (induction xs) (auto split: sum.splits dest: insert_desc_error)

lemma insert_desc_raises:
  "insert_desc x ys = Inl e \<Longrightarrow> \<exists>y \<in> set ys. fst x = fst y \<and> snd x \<noteq> snd y"
  by (induction ys) (auto simp: tuple_lt_def split: sum.splits bool.splits if_splits)

lemma sort_reverse_raises:
  "sort_reverse xs = Inl e \<Longrightarrow> \<exists>p \<in> set xs. \<exists>q \<in> set xs. fst p = fst q \<and> snd p \<noteq> snd q"
proof (induction xs arbitrary: e)
  case Nil
  then show ?case by simp
next
  case (Cons x xs)
  show ?case
  proof (cases "sort_reverse xs")
    case (Inl e')
    from Cons.IH [OF this] show ?thesis by auto
  next
    case (Inr ws)
    with Cons.prems have "insert_desc x ws = Inl e" by simp
    then obtain y where "y \<in> set ws" "fst x = fst y" "snd x \<noteq> snd y"
      using insert_desc_raises by blast
    moreover have "set ws = set xs" using sort_reverse_mset [OF Inr] by (metis set_mset_mset)
    ultimately show ?thesis by auto
  qed
qed

lemma sort_reverse_tie_raises:
  assumes "p \<in> set xs" and "q \<in> set xs" and "fst p = fst q" and "snd p \<noteq> snd q"
  shows "sort_reverse xs = Inl (TypeError not_supported_msg)"
proof (cases "sort_reverse xs")
  case (Inl e)
  then show ?thesis using sort_reverse_error by blast
next
  case (Inr ys)
  with assms show ?thesis using sort_reverse_no_tie by blast
qed

section \<open>Tied scores\<close>

text \<open>
  C2 says that candidates with equal scores are ranked in the extractor's order and
  that ranking never fails on a tie. The code sorts the tuples themselves: here the
  first two records of the catalog differ and both score 0.5, the comparison of the two
  tuples falls through to the records, and the request ends in status 500 with the
  message of the \<^verbatim>\<open>TypeError\<close>.
\<close>

theorem tied_scores_fail:
  "recommend_assessments example_net (example_engine [1 / 2, 1 / 2, 1 / 5])
     \<lparr>text = ''java'', max_results = Some 10, max_duration = None\<rparr> 0
    = (Inl (HTTPException 500 (''An unexpected error occurred: '' @ not_supported_msg)), 1) \<and>
   java_test \<noteq> style_inventory"
proof -
  have "sort_reverse (zip [1 / 2, 1 / 2, 1 / 5] [java_test, style_inventory, graduate_overview])
          = Inl (TypeError not_supported_msg)"
    by (rule sort_reverse_tie_raises [of "(1 / 2, java_test)" _ "(1 / 2, style_inventory)"])
       (simp_all add: example_distinct)
  then have "rank (example_engine [1 / 2, 1 / 2, 1 / 5]) 0 [0, 1, 2]
          [java_test, style_inventory, graduate_overview] = Inl (TypeError not_supported_msg)"
    by (simp add: rank_def example_engine_def)
  then show ?thesis
    using example_scrape [of 0] example_embed example_distinct
    by (simp add: recommend_assessments_def recommend_from_def strip_def isspace_def)
qed

section \<open>The successful response\<close>

lemma example_rank_high:
  "sort_reverse (zip [1 / 2, 3 / 4, 1 / 5] [java_test, style_inventory, graduate_overview])
    = Inr [(3 / 4, style_inventory), (1 / 2, java_test), (1 / 5, graduate_overview)]"
  by (simp add: tuple_lt_def)

text \<open>
  The response when the sort returns. For a request whose text is not blank once
  stripped and whose \<^verbatim>\<open>max_results\<close> is a positive \<open>k\<close>: if the catalog call, the
  two embedding calls and the similarity call succeed, the sort of the scored candidates
  returns, and the filtered list is not empty, then the response is the first \<open>k\<close>
  records of the filtered list, so it has \<open>min k n\<close> records for a filtered list of
  \<open>n\<close>; these are the records of the first \<open>k\<close> kept entries of the ranking,
  whose scores are in non-increasing order; and the ranking is a rearrangement of the
  scored candidates. The sort returns only when no two candidates have the same score
  and different records (\<open>sort_reverse_no_tie\<close>), so this does not cover every
  request of which a candidate passes the filters.
\<close>

lemma recommend_success:
  assumes "strip (text request) \<noteq> []"
    and "max_results request = Some k" and "0 < k"
    and "scrape_shl_catalog net sent = (Inr (Some assessments), sent')"
    and "process_query eng (text request) = Inr q"
    and "get_assessment_embeddings eng assessments = Inr embs"
    and "cosine eng q embs = Inr similarities"
    and "sort_reverse (zip similarities assessments) = Inr ranked"
    and "filter_loop (max_duration request) ranked \<noteq> []"
  shows "recommend_assessments net eng request sent =
           (Inr (take (nat k) (filter_loop (max_duration request) ranked)), sent') \<and>
         length (take (nat k) (filter_loop (max_duration request) ranked)) =
           min (nat k) (length (filter_loop (max_duration request) ranked)) \<and>
         take (nat k) (filter_loop (max_duration request) ranked) =
           map snd (take (nat k) (filter (keeps (max_duration request)) ranked)) \<and>
         sorted_wrt (\<lambda>p q. fst q \<le> fst p)
           (take (nat k) (filter (keeps (max_duration request)) ranked)) \<and>
         mset ranked = mset (zip similarities assessments)"
proof -
  have rk: "rank eng q embs assessments = Inr ranked"
    using assms(7,8) by (simp add: rank_def)
  have "recommend_assessments net eng request sent = (respond request ranked, sent')"
    using assms(1,4,5,6) rk by (rule recommend_ranked)
  with assms(2,3,9) have result: "recommend_assessments net eng request sent =
      (Inr (take (nat k) (filter_loop (max_duration request) ranked)), sent')"
    by (simp add: respond_def slice_to_def)
  have "sorted_wrt (\<lambda>p q. fst q \<le> fst p) ranked"
    using assms(8) by (rule sort_reverse_sorted)
  then have "sorted_wrt (\<lambda>p q. fst q \<le> fst p) (filter (keeps (max_duration request)) ranked)"
    by (rule sorted_wrt_filter)
  then have sorted: "sorted_wrt (\<lambda>p q. fst q \<le> fst p)
      (take (nat k) (filter (keeps (max_duration request)) ranked))"
    by (rule sorted_wrt_take)
  have prefix: "take (nat k) (filter_loop (max_duration request) ranked) =
           map snd (take (nat k) (filter (keeps (max_duration request)) ranked))"
    by (simp add: filter_loop_keeps take_map)
  have perm: "mset ranked = mset (zip similarities assessments)"
    using assms(8) by (rule sort_reverse_mset)
  have len: "length (take (nat k) (filter_loop (max_duration request) ranked)) =
           min (nat k) (length (filter_loop (max_duration request) ranked))"
    by (simp add: min.commute)
  from result len prefix sorted perm show ?thesis by (intro conjI)
qed

lemma recommend_success_example:
  "recommend_assessments example_net (example_engine [1 / 2, 3 / 4, 1 / 5])
     \<lparr>text = ''java'', max_results = Some 1, max_duration = Some 35\<rparr> 0
    = (Inr [style_inventory], 1) \<and>
   filter_loop (Some 35) [(3 / 4, style_inventory), (1 / 2, java_test), (1 / 5, graduate_overview)]
    = [style_inventory, graduate_overview]"
proof -
  let ?request = "\<lparr>text = ''java'', max_results = Some 1, max_duration = Some 35\<rparr>"
  let ?eng = "example_engine [1 / 2, 3 / 4, 1 / 5]"
  let ?ranked = "[(3 / 4, style_inventory), (1 / 2, java_test), (1 / 5, graduate_overview)]"
  have h1: "strip (text ?request) \<noteq> []" by (rule text_java)
  have h2: "max_results ?request = Some 1" by simp
  have h3: "(0 :: int) < 1" by simp
  have h4: "scrape_shl_catalog example_net 0 =
              (Inr (Some [java_test, style_inventory, graduate_overview]), 1)"
    by (simp add: example_scrape)
  have h5: "process_query ?eng (text ?request) = Inr 0" by (rule example_embed)
  have h6: "get_assessment_embeddings ?eng [java_test, style_inventory, graduate_overview]
              = Inr [0, 1, 2]"
    by (rule example_embed)
  have h7: "cosine ?eng 0 [0, 1, 2] = Inr [1 / 2, 3 / 4, 1 / 5]"
    by (simp add: example_engine_def)
  have h8: "sort_reverse (zip [1 / 2, 3 / 4, 1 / 5] [java_test, style_inventory, graduate_overview])
              = Inr ?ranked"
    by (rule example_rank_high)
  have loop: "filter_loop (Some 35) ?ranked = [style_inventory, graduate_overview]"
    by (simp add: java_test_digits style_inventory_digits graduate_overview_digits
          int_of_digits_def)
  then have h9: "filter_loop (max_duration ?request) ?ranked \<noteq> []" by simp
  show ?thesis
    using recommend_success [OF h1 h2 h3 h4 h5 h6 h7 h8 h9] loop by simp
qed

text \<open>
  C1 says that a request with a valid text and a positive \<^verbatim>\<open>max_results\<close>, for which
  extraction and embedding succeed and a candidate passes the relevance and duration
  filters, is answered with \<open>min k n\<close> recommendations in non-increasing order of
  score. Here the text is "java", \<^verbatim>\<open>max_results\<close> is 10, the catalog is extracted and
  embedded without error, and the three candidates score 0.75, 0.5 and 0.5, so all of
  them pass the relevance floor and there is no duration constraint. The last two
  records differ and have the same score: the sort of the tuples raises, and the
  request is answered with status 500 and no recommendation.
\<close>

theorem tied_candidates_no_response:
  "recommend_assessments example_net (example_engine [3 / 4, 1 / 2, 1 / 2])
     \<lparr>text = ''java'', max_results = Some 10, max_duration = None\<rparr> 0
    = (Inl (HTTPException 500 (''An unexpected error occurred: '' @ not_supported_msg)), 1) \<and>
   strip ''java'' \<noteq> [] \<and>
   scrape_shl_catalog example_net 0
    = (Inr (Some [java_test, style_inventory, graduate_overview]), 1) \<and>
   process_query (example_engine [3 / 4, 1 / 2, 1 / 2]) ''java'' = Inr 0 \<and>
   get_assessment_embeddings (example_engine [3 / 4, 1 / 2, 1 / 2])
     [java_test, style_inventory, graduate_overview] = Inr [0, 1, 2] \<and>
   cosine (example_engine [3 / 4, 1 / 2, 1 / 2]) 0 [0, 1, 2] = Inr [3 / 4, 1 / 2, 1 / 2] \<and>
   filter_loop None (zip [3 / 4, 1 / 2, 1 / 2] [java_test, style_inventory, graduate_overview])
    = [java_test, style_inventory, graduate_overview] \<and>
   style_inventory \<noteq> graduate_overview"
proof -
  have "sort_reverse (zip [3 / 4, 1 / 2, 1 / 2] [java_test, style_inventory, graduate_overview])
          = Inl (TypeError not_supported_msg)"
    by (rule sort_reverse_tie_raises [of "(1 / 2, style_inventory)" _ "(1 / 2, graduate_overview)"])
       (simp_all add: example_distinct)
  then have tie: "rank (example_engine [3 / 4, 1 / 2, 1 / 2]) 0 [0, 1, 2]
          [java_test, style_inventory, graduate_overview] = Inl (TypeError not_supported_msg)"
    by (simp add: rank_def example_engine_def)
  have failed: "recommend_assessments example_net (example_engine [3 / 4, 1 / 2, 1 / 2])
     \<lparr>text = ''java'', max_results = Some 10, max_duration = None\<rparr> 0
    = (Inl (HTTPException 500 (''An unexpected error occurred: '' @ not_supported_msg)), 1)"
    using tie example_scrape [of 0] example_embed
    by (simp add: recommend_assessments_def recommend_from_def strip_def isspace_def)
  have valid: "strip ''java'' \<noteq> []"
    by (simp add: strip_def isspace_def)
  have cos: "cosine (example_engine [3 / 4, 1 / 2, 1 / 2]) 0 [0, 1, 2] = Inr [3 / 4, 1 / 2, 1 / 2]"
    by (simp add: example_engine_def)
  have kept: "filter_loop None
      (zip [3 / 4, 1 / 2, 1 / 2] [java_test, style_inventory, graduate_overview])
    = [java_test, style_inventory, graduate_overview]"
    by simp
  from failed valid cos kept example_scrape [of 0] example_embed example_distinct
  show ?thesis by simp
qed

end
